theory Spec2Isabelle
  imports Main "HOL-Library.Word" "HOL-Library.Sublist" "HOL-Library.Signed_Division"
begin

section \<open>Values shared by the engine and the stores\<close>

text \<open>
  Go's \<open>int64\<close> is a 64-bit word read in two's complement: \<open>+\<close> wraps, and the
  comparison \<open>a > b\<close> of the source is the signed \<open>b <s a\<close>.  \<open>time.Duration\<close>
  is an \<open>int64\<close> count of nanoseconds.  An instant (\<open>time.Time\<close>) is a number of
  nanoseconds on an unbounded axis.
\<close>

type_synonym int64 = "64 word"
type_synonym Duration = "64 word"
type_synonym Time = int

text \<open>
  Go's \<open>error\<close> values.  \<open>Failure\<close> is an error raised by a store backend;
  \<open>Errorf msg e\<close> is \<open>fmt.Errorf(msg + ": %w", e)\<close>, which keeps the wrapped
  error.  A \<open>nil\<close> error is \<open>None\<close>, so a Go result \<open>(v, err)\<close> is a pair
  \<open>(v, error option)\<close>.
\<close>

datatype error = Failure string | Errorf string error

text \<open>The three messages of \<open>checkLimit\<close>, as UTF-8 bytes.\<close>

definition msg_IsBlocked :: string where
  "msg_IsBlocked = ''falha ao verificar se est'' @ [CHR 0xC3, CHR 0xA1] @ '' bloqueado''"

definition msg_Increment :: string where
  "msg_Increment = ''falha ao incrementar contador''"

definition msg_Block :: string where
  "msg_Block = ''falha ao bloquear chave''"

section \<open>The storage interface\<close>

text \<open>
  \<open>storage.Storage\<close> is an interface of four methods.  A value of the interface is the
  record of its methods; the object behind it is a state \<open>'s\<close> that every method takes
  and returns.  The \<open>context.Context\<close> argument is only passed through and is left out.
\<close>

record 's Storage =
  Increment :: "string \<Rightarrow> Duration \<Rightarrow> 's \<Rightarrow> (int64 \<times> error option) \<times> 's"
  IsBlocked :: "string \<Rightarrow> 's \<Rightarrow> (bool \<times> error option) \<times> 's"
  Block :: "string \<Rightarrow> Duration \<Rightarrow> 's \<Rightarrow> error option \<times> 's"
  Close :: "'s \<Rightarrow> error option \<times> 's"

section \<open>The rate limiter\<close>

record Config =
  Requests :: int64
  Window :: Duration
  BlockTime :: Duration

record 's RateLimiter =
  storage :: "'s Storage"
  ipConfig :: Config
  tokens :: "string \<rightharpoonup> Config"

definition NewRateLimiter :: "'s Storage \<Rightarrow> Config \<Rightarrow> 's RateLimiter" where
  "NewRateLimiter st ipc = \<lparr>storage = st, ipConfig = ipc, tokens = Map.empty\<rparr>"

definition AddTokenConfig :: "string \<Rightarrow> Config \<Rightarrow> 's RateLimiter \<Rightarrow> 's RateLimiter" where
  "AddTokenConfig token config rl = rl\<lparr>tokens := (tokens rl)(token \<mapsto> config)\<rparr>"

text \<open>
  \<open>checkLimit\<close>: every \<open>return\<close> of the source is one branch; the state returned is the
  store's state after the last method called.
\<close>

definition checkLimit ::
  "'s RateLimiter \<Rightarrow> string \<Rightarrow> Config \<Rightarrow> 's \<Rightarrow> (bool \<times> error option) \<times> 's" where
  "checkLimit rl key config s =
     (case IsBlocked (storage rl) key s of
        ((blocked, Some err), s1) \<Rightarrow> ((False, Some (Errorf msg_IsBlocked err)), s1)
      | ((blocked, None), s1) \<Rightarrow>
          if blocked then ((False, None), s1)
          else
            (case Increment (storage rl) key (Window config) s1 of
               ((count, Some err), s2) \<Rightarrow> ((False, Some (Errorf msg_Increment err)), s2)
             | ((count, None), s2) \<Rightarrow>
                 if Requests config <s count then
                   (case Block (storage rl) key (BlockTime config) s2 of
                      (Some err, s3) \<Rightarrow> ((False, Some (Errorf msg_Block err)), s3)
                    | (None, s3) \<Rightarrow> ((False, None), s3))
                 else ((True, None), s2)))"

definition CheckIP :: "'s RateLimiter \<Rightarrow> string \<Rightarrow> 's \<Rightarrow> (bool \<times> error option) \<times> 's" where
  "CheckIP rl ip s = checkLimit rl (''ip:'' @ ip) (ipConfig rl) s"

definition CheckToken :: "'s RateLimiter \<Rightarrow> string \<Rightarrow> 's \<Rightarrow> (bool \<times> error option) \<times> 's" where
  "CheckToken rl token s =
     (case tokens rl token of
        None \<Rightarrow> ((True, None), s)
      | Some config \<Rightarrow> checkLimit rl (''token:'' @ token) config s)"

section \<open>A store that records its calls\<close>

text \<open>
  \<open>recording st\<close> behaves as the store \<open>st\<close> and appends every method call, with the
  error it returned, to a log kept beside the state of \<open>st\<close> (what the test double
  \<open>MockStorage\<close> does with \<open>m.Called\<close>).
\<close>

datatype call =
    IsBlockedCall string
  | IncrementCall string Duration
  | BlockCall string Duration
  | CloseCall

type_synonym log = "(call \<times> error option) list"

definition recording :: "'s Storage \<Rightarrow> ('s \<times> log) Storage" where
  "recording st =
     \<lparr>Increment = (\<lambda>key window (s, l).
        case Increment st key window s of
          ((n, e), s') \<Rightarrow> ((n, e), (s', l @ [(IncrementCall key window, e)]))),
      IsBlocked = (\<lambda>key (s, l).
        case IsBlocked st key s of
          ((b, e), s') \<Rightarrow> ((b, e), (s', l @ [(IsBlockedCall key, e)]))),
      Block = (\<lambda>key duration (s, l).
        case Block st key duration s of
          (e, s') \<Rightarrow> (e, (s', l @ [(BlockCall key duration, e)]))),
      Close = (\<lambda>(s, l).
        case Close st s of
          (e, s') \<Rightarrow> (e, (s', l @ [(CloseCall, e)])))\<rparr>"

section \<open>The in-memory store of the middleware tests\<close>

text \<open>
  \<open>time.Now()\<close> is ambient in the source.  Here the clock is a sequence of readings and
  the number of readings taken so far: every \<open>time.Now()\<close> returns the next reading.
  Nothing is assumed about the readings.
\<close>

record Clock =
  readings :: "nat \<Rightarrow> Time"
  taken :: nat

definition time_Now :: "Clock \<Rightarrow> Time \<times> Clock" where
  "time_Now c = (readings c (taken c), c\<lparr>taken := Suc (taken c)\<rparr>)"

definition Before :: "Time \<Rightarrow> Time \<Rightarrow> bool" where
  "Before t u = (t < u)"

definition Add :: "Time \<Rightarrow> Duration \<Rightarrow> Time" where
  "Add t d = t + sint d"

record countData =
  count :: int64
  expireAt :: Time

record InMemoryStorage =
  counters :: "string \<rightharpoonup> countData"
  blocked :: "string \<rightharpoonup> Time"

text \<open>The store object together with the clock its methods read.\<close>

type_synonym mem = "InMemoryStorage \<times> Clock"

definition NewInMemoryStorage :: InMemoryStorage where
  "NewInMemoryStorage = \<lparr>counters = Map.empty, blocked = Map.empty\<rparr>"

definition InMemoryStorage_Increment ::
  "string \<Rightarrow> Duration \<Rightarrow> mem \<Rightarrow> (int64 \<times> error option) \<times> mem" where
  "InMemoryStorage_Increment key window = (\<lambda>(s, c).
     let (now, c') = time_Now c;
         reset = ((1, None),
                  (s\<lparr>counters := (counters s)(key \<mapsto> \<lparr>count = 1, expireAt = Add now window\<rparr>)\<rparr>, c'))
     in case counters s key of
          Some data \<Rightarrow>
            if Before now (expireAt data) then
              let data' = data\<lparr>count := count data + 1\<rparr>
              in ((count data', None), (s\<lparr>counters := (counters s)(key \<mapsto> data')\<rparr>, c'))
            else reset
        | None \<Rightarrow> reset)"

definition InMemoryStorage_IsBlocked ::
  "string \<Rightarrow> mem \<Rightarrow> (bool \<times> error option) \<times> mem" where
  "InMemoryStorage_IsBlocked key = (\<lambda>(s, c).
     case blocked s key of
       Some blockedUntil \<Rightarrow>
         let (now, c') = time_Now c in ((Before now blockedUntil, None), (s, c'))
     | None \<Rightarrow> ((False, None), (s, c)))"

definition InMemoryStorage_Block ::
  "string \<Rightarrow> Duration \<Rightarrow> mem \<Rightarrow> error option \<times> mem" where
  "InMemoryStorage_Block key duration = (\<lambda>(s, c).
     let (now, c') = time_Now c
     in (None, (s\<lparr>blocked := (blocked s)(key \<mapsto> Add now duration)\<rparr>, c')))"

definition InMemoryStorage_Close :: "mem \<Rightarrow> error option \<times> mem" where
  "InMemoryStorage_Close m = (None, m)"

definition InMemoryStorage_ops :: "mem Storage" where
  "InMemoryStorage_ops =
     \<lparr>Increment = InMemoryStorage_Increment,
      IsBlocked = InMemoryStorage_IsBlocked,
      Block = InMemoryStorage_Block,
      Close = InMemoryStorage_Close\<rparr>"

section \<open>Test doubles and call sequences\<close>

text \<open>
  A stateless store that answers every call with fixed values, as the expectations of
  the engine's unit tests do: \<open>IsBlocked\<close> returns \<open>ib\<close>, \<open>Increment\<close> returns
  \<open>inc\<close>, \<open>Block\<close> returns \<open>bl\<close>.
\<close>

definition stub :: "bool \<times> error option \<Rightarrow> int64 \<times> error option \<Rightarrow> error option \<Rightarrow> unit Storage" where
  "stub ib inc bl =
     \<lparr>Increment = (\<lambda>key window s. (inc, s)),
      IsBlocked = (\<lambda>key s. (ib, s)),
      Block = (\<lambda>key duration s. (bl, s)),
      Close = (\<lambda>s. (None, s))\<rparr>"

text \<open>\<open>calls n f s\<close>: \<open>n\<close> consecutive calls of \<open>f\<close>, with their results in order.\<close>

fun calls :: "nat \<Rightarrow> ('s \<Rightarrow> 'r \<times> 's) \<Rightarrow> 's \<Rightarrow> 'r list \<times> 's" where
  "calls 0 f s = ([], s)"
| "calls (Suc n) f s =
     (case f s of (r, s') \<Rightarrow> (case calls n f s' of (rs, s'') \<Rightarrow> (r # rs, s'')))"

text \<open>
  \<open>within m c key E k\<close>: the in-memory store \<open>m\<close> and the clock \<open>c\<close> after \<open>k\<close>
  increments of \<open>key\<close> inside a window that expires at \<open>E\<close>, each increment having
  taken one reading of the clock.
\<close>

definition within :: "InMemoryStorage \<Rightarrow> Clock \<Rightarrow> string \<Rightarrow> Time \<Rightarrow> nat \<Rightarrow> mem" where
  "within m c key E k =
     (m\<lparr>counters := (counters m)(key \<mapsto> \<lparr>count = of_nat k, expireAt = E\<rparr>)\<rparr>,
      c\<lparr>taken := taken c + k\<rparr>)"

text \<open>
  Fixtures of the tests: the configuration of \<open>TestRateLimiterMiddleware_IPLimiting\<close>
  (3 requests per second, one minute of block), the token configuration of
  \<open>TestRateLimiter_CheckToken_ValidToken\<close>, a clock whose readings are one microsecond
  apart, and a store whose backend is down.
\<close>

definition test_config :: Config where
  "test_config = \<lparr>Requests = 3, Window = 1000000000, BlockTime = 60000000000\<rparr>"

definition token_config :: Config where
  "token_config = \<lparr>Requests = 10, Window = 1000000000, BlockTime = 120000000000\<rparr>"

definition test_clock :: Clock where
  "test_clock = \<lparr>readings = (\<lambda>n. 1000 * int n), taken = 0\<rparr>"

definition down :: "unit Storage" where
  "down = stub (False, Some (Failure ''connection refused''))
               (0, Some (Failure ''connection refused''))
               (Some (Failure ''connection refused''))"

section \<open>The Redis store\<close>

text \<open>
  \<open>RedisStorage.Increment\<close> queues \<open>INCR key\<close> and \<open>EXPIRE key window\<close> in a pipeline
  and executes it.  The Redis server and the go-redis client are not part of the
  repository; the two commands are written after the Redis command reference.  A key
  holds an \<open>int64\<close> and an optional instant of expiry; an expired key is absent.  The
  decimal string Redis stores is kept as the number it denotes.
\<close>

record RedisEntry =
  val :: int64
  expiry :: "Time option"

record RedisServer =
  db :: "string \<rightharpoonup> RedisEntry"
  reachable :: bool

type_synonym redis = "RedisServer \<times> Clock"

definition live :: "RedisServer \<Rightarrow> Time \<Rightarrow> string \<Rightarrow> RedisEntry option" where
  "live r now key =
     (case db r key of
        None \<Rightarrow> None
      | Some e \<Rightarrow>
          (case expiry e of
             None \<Rightarrow> Some e
           | Some t \<Rightarrow> if t \<le> now then None else Some e))"

text \<open>
  \<open>INCR\<close>: an absent key counts from 0 and gets no expiry; a present key keeps its
  expiry; the largest \<open>int64\<close> cannot be incremented.
\<close>

definition INCR :: "string \<Rightarrow> Time \<Rightarrow> RedisServer \<Rightarrow> (int64 \<times> error option) \<times> RedisServer" where
  "INCR key now r =
     (case live r now key of
        None \<Rightarrow> ((1, None), r\<lparr>db := (db r)(key \<mapsto> \<lparr>val = 1, expiry = None\<rparr>)\<rparr>)
      | Some e \<Rightarrow>
          if val e = 9223372036854775807
          then ((0, Some (Failure ''ERR increment or decrement would overflow'')), r)
          else ((val e + 1, None), r\<lparr>db := (db r)(key \<mapsto> e\<lparr>val := val e + 1\<rparr>)\<rparr>))"

text \<open>
  \<open>EXPIRE key seconds\<close>: on a present key, sets the expiry to \<open>seconds\<close> from now
  (and deletes the key when \<open>seconds\<close> is not positive); on an absent key, nothing.
\<close>

definition EXPIRE :: "string \<Rightarrow> int \<Rightarrow> Time \<Rightarrow> RedisServer \<Rightarrow> (bool \<times> error option) \<times> RedisServer" where
  "EXPIRE key seconds now r =
     (case live r now key of
        None \<Rightarrow> ((False, None), r)
      | Some e \<Rightarrow>
          if seconds \<le> 0 then ((True, None), r\<lparr>db := (db r)(key := None)\<rparr>)
          else ((True, None),
                r\<lparr>db := (db r)(key \<mapsto> e\<lparr>expiry := Some (now + seconds * 1000000000)\<rparr>)\<rparr>))"

text \<open>
  The client sends a duration as whole seconds: a positive duration below one second
  becomes 1, any other is divided by one second, truncating.
\<close>

definition formatSec :: "Duration \<Rightarrow> int" where
  "formatSec dur =
     (if 0 < sint dur \<and> sint dur < 1000000000 then 1 else sint dur sdiv 1000000000)"

text \<open>
  The pipeline runs both commands, \<open>EXPIRE\<close> whatever \<open>INCR\<close> returned, and
  \<open>Exec\<close> returns the first error; with the server unreachable nothing runs.
\<close>

definition RedisStorage_Increment ::
  "string \<Rightarrow> Duration \<Rightarrow> redis \<Rightarrow> (int64 \<times> error option) \<times> redis" where
  "RedisStorage_Increment key window = (\<lambda>(r, c).
     if \<not> reachable r
     then ((0, Some (Errorf msg_Increment (Failure ''connection refused''))), (r, c))
     else
       let (now1, c1) = time_Now c;
           ((n, e1), r1) = INCR key now1 r;
           (now2, c2) = time_Now c1;
           ((ok, e2), r2) = EXPIRE key (formatSec window) now2 r1
       in case (case e1 of Some e \<Rightarrow> Some e | None \<Rightarrow> e2) of
            Some err \<Rightarrow> ((0, Some (Errorf msg_Increment err)), (r2, c2))
          | None \<Rightarrow> ((n, None), (r2, c2)))"

text \<open>A reachable server that holds no key.\<close>

definition empty_redis :: RedisServer where
  "empty_redis = \<lparr>db = Map.empty, reachable = True\<rparr>"

text \<open>A clock whose first \<open>k\<close> readings are 0 and whose later readings are half a second.\<close>

definition half_second_later :: "nat \<Rightarrow> Clock" where
  "half_second_later k = \<lparr>readings = (\<lambda>n. if n < k then 0 else 500000000), taken = 0\<rparr>"

section \<open>Auxiliary facts\<close>

lemmas mem_defs =
  InMemoryStorage_ops_def InMemoryStorage_IsBlocked_def InMemoryStorage_Increment_def
  InMemoryStorage_Block_def time_Now_def Let_def Before_def NewInMemoryStorage_def

lemma sint_of_nat64:
  assumes "j < 2 ^ 63"
  shows "sint (of_nat j :: 64 word) = int j"
proof -
  have "sint (word_of_int (int j) :: 64 word) = signed_take_bit (LENGTH(64) - 1) (int j)"
    by (rule sint_sbintrunc')
  also have "\<dots> = int j"
    using assms by (simp add: signed_take_bit_int_eq_self_iff)
  finally show ?thesis by simp
qed

lemma sint_of_nat64_succ:
  assumes "j + 1 < 2 ^ 63"
  shows "sint (of_nat j + 1 :: 64 word) = int j + 1"
  using sint_of_nat64 [of "Suc j"] assms by (simp add: ac_simps)

lemma int64_of_sint:
  assumes "sint (x :: 64 word) = int n"
  shows "x = of_nat n"
proof -
  have "word_of_int (sint x) = x" by simp
  then show ?thesis using assms by simp
qed

lemma calls_add:
  "calls (a + b) f s =
     (case calls a f s of (rs, s') \<Rightarrow> (case calls b f s' of (rs', s'') \<Rightarrow> (rs @ rs', s'')))"
  by (induction a arbitrary: s) (auto split: prod.splits)

lemma calls_numeral:
  "calls (numeral n) f s = calls (Suc (pred_numeral n)) f s"
  by (simp add: numeral_eq_Suc)

lemma checkLimit_not_allowed_on_error:
  "snd (fst (checkLimit rl key config s)) \<noteq> None \<Longrightarrow> \<not> fst (fst (checkLimit rl key config s))"
  by (auto simp: checkLimit_def split: prod.splits option.splits if_splits)

text \<open>The first call for a key the in-memory store has never seen.\<close>

lemma mem_first:
  fixes rl :: "mem RateLimiter"
  assumes "storage rl = InMemoryStorage_ops"
      and "counters m key = None" and "blocked m key = None"
  shows "checkLimit rl key config (m, c) =
     (if Requests config <s 1
      then ((False, None),
            (m\<lparr>counters := (counters m)(key \<mapsto>
                  \<lparr>count = 1, expireAt = Add (readings c (taken c)) (Window config)\<rparr>),
               blocked := (blocked m)(key \<mapsto> Add (readings c (Suc (taken c))) (BlockTime config))\<rparr>,
             c\<lparr>taken := Suc (Suc (taken c))\<rparr>))
      else ((True, None),
            (m\<lparr>counters := (counters m)(key \<mapsto>
                  \<lparr>count = 1, expireAt = Add (readings c (taken c)) (Window config)\<rparr>)\<rparr>,
             c\<lparr>taken := Suc (taken c)\<rparr>)))"
  using assms by (simp add: checkLimit_def mem_defs)

text \<open>A call inside the window of a counter, for a key with no block.\<close>

lemma mem_next:
  fixes rl :: "mem RateLimiter"
  assumes "storage rl = InMemoryStorage_ops"
      and "counters m key = Some d" and "blocked m key = None"
      and "readings c (taken c) < expireAt d"
  shows "checkLimit rl key config (m, c) =
     (if Requests config <s count d + 1
      then ((False, None),
            (m\<lparr>counters := (counters m)(key \<mapsto> d\<lparr>count := count d + 1\<rparr>),
               blocked := (blocked m)(key \<mapsto> Add (readings c (Suc (taken c))) (BlockTime config))\<rparr>,
             c\<lparr>taken := Suc (Suc (taken c))\<rparr>))
      else ((True, None),
            (m\<lparr>counters := (counters m)(key \<mapsto> d\<lparr>count := count d + 1\<rparr>)\<rparr>,
             c\<lparr>taken := Suc (taken c)\<rparr>)))"
  using assms by (simp add: checkLimit_def mem_defs)

text \<open>Calls \<open>k + 1\<close> to \<open>k + j\<close> of a window, all below the limit, are allowed.\<close>

lemma mem_middle:
  fixes rl :: "mem RateLimiter"
  assumes st: "storage rl = InMemoryStorage_ops"
      and nb: "blocked m key = None"
      and N: "sint (Requests config) = int N" "N < 2 ^ 63"
      and win: "\<forall>i. 1 \<le> i \<and> i \<le> N \<longrightarrow> readings c (taken c + i) < E"
  shows "1 \<le> k \<Longrightarrow> k + j \<le> N \<Longrightarrow>
     calls j (checkLimit rl key config) (within m c key E k) =
       (replicate j (True, None), within m c key E (k + j))"
proof (induction j arbitrary: k)
  case 0
  then show ?case by simp
next
  case (Suc j)
  have k: "1 \<le> k" "Suc k \<le> N" using Suc.prems by simp_all
  have rd: "readings c (taken c + k) < E" using win k by simp
  have "sint (of_nat k + 1 :: 64 word) = int k + 1"
    using k N(2) by (intro sint_of_nat64_succ) simp
  then have ok: "\<not> Requests config <s of_nat k + 1"
    using k N(1) by (simp add: word_sless_alt)
  have step: "checkLimit rl key config (within m c key E k) = ((True, None), within m c key E (Suc k))"
    unfolding within_def
    using ok rd nb
    by (subst mem_next [OF st, where d = "\<lparr>count = of_nat k, expireAt = E\<rparr>"])
       (simp_all add: add.commute)
  have "calls j (checkLimit rl key config) (within m c key E (Suc k)) =
       (replicate j (True, None), within m c key E (Suc k + j))"
    using Suc.prems by (intro Suc.IH) simp_all
  with step show ?case by simp
qed

text \<open>
  Three calls for a token limited to 3, on a fresh in-memory store: allowed whatever the
  clock reads, since a counter that expired restarts at 1.
\<close>

lemma three_token_calls:
  assumes "Requests tc = 3"
  shows "fst (calls 3 (CheckToken (AddTokenConfig token tc (NewRateLimiter InMemoryStorage_ops ipc)) token)
             (NewInMemoryStorage, c)) = [(True, None), (True, None), (True, None)]"
  using assms
  by (simp add: numeral_3_eq_3 CheckToken_def AddTokenConfig_def NewRateLimiter_def checkLimit_def
      mem_defs word_sless_alt)

text \<open>
  \<open>InMemoryStorage.Increment\<close> inside an unexpired window: the previous count plus one,
  and the expiry it found.
\<close>

lemma InMemoryStorage_Increment_in_window:
  assumes "counters m key = Some d" and "readings c (taken c) < expireAt d"
  shows "InMemoryStorage_Increment key window (m, c) =
     ((count d + 1, None),
      (m\<lparr>counters := (counters m)(key \<mapsto> d\<lparr>count := count d + 1\<rparr>)\<rparr>,
       c\<lparr>taken := Suc (taken c)\<rparr>))"
  using assms by (simp add: mem_defs)

text \<open>\<open>InMemoryStorage.IsBlocked\<close> writes neither counters nor blocks.\<close>

lemma InMemoryStorage_IsBlocked_frame:
  assumes "InMemoryStorage_IsBlocked key (m, c) = (r, (m', c'))"
  shows "m' = m"
  using assms by (auto simp: mem_defs split: option.splits)

section \<open>The limit within one window\<close>

text \<open>
  Claim C1.  Let the request limit be \<open>N \<ge> 0\<close>, with \<open>N + 1\<close> still an \<open>int64\<close>, so
  that the store can count up to \<open>N + 1\<close>.  Take a key for which the in-memory store
  holds neither a counter nor a block, and \<open>N + 1\<close> consecutive calls of \<open>checkLimit\<close>
  whose clock readings all lie before the expiry the first call set (one window).  Then
  calls 1 to \<open>N\<close> return allowed and call \<open>N + 1\<close> returns denied, both with a nil
  error; afterwards the counter is \<open>N + 1\<close> with the expiry of the first call, and the
  last call has written a block for the key that lasts \<open>BlockTime\<close> from its reading
  of the clock.
\<close>

theorem limit_reached_after_N_calls:
  fixes rl :: "mem RateLimiter"
  assumes st: "storage rl = InMemoryStorage_ops"
      and fresh: "counters m key = None" "blocked m key = None"
      and N: "sint (Requests config) = int N" "N + 1 < 2 ^ 63"
      and win: "\<forall>i. 1 \<le> i \<and> i \<le> N \<longrightarrow>
                  readings c (taken c + i) < Add (readings c (taken c)) (Window config)"
  shows "calls (N + 1) (checkLimit rl key config) (m, c) =
     (replicate N (True, None) @ [(False, None)],
      (m\<lparr>counters := (counters m)(key \<mapsto>
            \<lparr>count = Requests config + 1, expireAt = Add (readings c (taken c)) (Window config)\<rparr>),
         blocked := (blocked m)(key \<mapsto> Add (readings c (taken c + N + 1)) (BlockTime config))\<rparr>,
       c\<lparr>taken := taken c + N + 2\<rparr>))"
proof (cases N)
  case 0
  then have "Requests config = 0" using int64_of_sint [OF N(1)] by simp
  then show ?thesis using 0 by (simp add: mem_first [OF st fresh] word_sless_alt)
next
  case (Suc n)
  let ?E = "Add (readings c (taken c)) (Window config)"
  let ?f = "checkLimit rl key config"
  let ?final = "(m\<lparr>counters := (counters m)(key \<mapsto> \<lparr>count = Requests config + 1, expireAt = ?E\<rparr>),
         blocked := (blocked m)(key \<mapsto> Add (readings c (taken c + N + 1)) (BlockTime config))\<rparr>,
       c\<lparr>taken := taken c + N + 2\<rparr>)"
  have R: "Requests config = of_nat N" using N(1) by (rule int64_of_sint)
  have first: "?f (m, c) = ((True, None), within m c key ?E 1)"
    using Suc N(1) by (simp add: mem_first [OF st fresh] word_sless_alt within_def)
  have mid: "calls n ?f (within m c key ?E 1) = (replicate n (True, None), within m c key ?E N)"
    using mem_middle [OF st fresh(2) N(1) _ win, of 1 n] N(2) Suc by simp
  have "sint (of_nat N + 1 :: 64 word) = int N + 1"
    using N(2) by (intro sint_of_nat64_succ) simp
  then have over: "Requests config <s of_nat N + 1"
    using N(1) by (simp add: word_sless_alt)
  have rd: "readings c (taken c + N) < ?E" using win [rule_format, of N] Suc by simp
  have last: "?f (within m c key ?E N) = ((False, None), ?final)"
    unfolding within_def
    using over rd fresh(2) R
    by (subst mem_next [OF st, where d = "\<lparr>count = of_nat N, expireAt = ?E\<rparr>"]) simp_all
  have one: "calls 1 ?f (within m c key ?E N) = ([(False, None)], ?final)"
    using last by simp
  have "calls (N + 1) ?f (m, c) = calls (Suc (n + 1)) ?f (m, c)" using Suc by simp
  also have "\<dots> = (case calls (n + 1) ?f (within m c key ?E 1) of
                      (rs, s'') \<Rightarrow> ((True, None) # rs, s''))"
    using first by simp
  also have "calls (n + 1) ?f (within m c key ?E 1) =
      (replicate n (True, None) @ [(False, None)], ?final)"
    by (simp only: calls_add mid one prod.case)
  finally show ?thesis using Suc by simp
qed

theorem limit_reached_after_N_calls_witness:
  "calls 4 (checkLimit (NewRateLimiter InMemoryStorage_ops test_config) ''ip:192.168.1.1'' test_config)
         (NewInMemoryStorage, test_clock) =
     ([(True, None), (True, None), (True, None), (False, None)],
      (\<lparr>counters = [''ip:192.168.1.1'' \<mapsto> \<lparr>count = 4, expireAt = 1000000000\<rparr>],
        blocked = [''ip:192.168.1.1'' \<mapsto> 60000004000]\<rparr>,
       \<lparr>readings = (\<lambda>n. 1000 * int n), taken = 5\<rparr>))"
proof -
  have h1: "storage (NewRateLimiter InMemoryStorage_ops test_config) = InMemoryStorage_ops"
    by (simp add: NewRateLimiter_def)
  have h2: "counters NewInMemoryStorage ''ip:192.168.1.1'' = None"
    by (simp add: NewInMemoryStorage_def)
  have h3: "blocked NewInMemoryStorage ''ip:192.168.1.1'' = None"
    by (simp add: NewInMemoryStorage_def)
  have h4: "sint (Requests test_config) = int 3"
    by (simp add: test_config_def)
  have h5: "(3::nat) + 1 < 2 ^ 63"
    by simp
  have h6: "\<forall>i. 1 \<le> i \<and> i \<le> (3::nat) \<longrightarrow>
      readings test_clock (taken test_clock + i)
        < Add (readings test_clock (taken test_clock)) (Window test_config)"
    by (simp add: test_clock_def test_config_def Add_def)
  have four: "(4::nat) = 3 + 1"
    by simp
  show ?thesis
    unfolding four
    by (simp only: limit_reached_after_N_calls [OF h1 h2 h3 h4 h5 h6])
       (simp add: test_clock_def test_config_def Add_def NewInMemoryStorage_def numeral_3_eq_3)
qed

section \<open>A blocked key\<close>

text \<open>
  Claim C2.  For every store, key and configuration: when the store answers \<open>IsBlocked\<close>
  with true and a nil error, \<open>checkLimit\<close> returns denied with a nil error, the store
  is left in the state that this one query produced, and the query is the only call the
  store received: neither \<open>Increment\<close> nor \<open>Block\<close> is called, so the counter and the
  expiry of the existing block stay as they were.
\<close>

theorem blocked_key_denied_untouched:
  assumes "storage rl = recording st"
      and "IsBlocked st key s = ((True, None), s')"
  shows "checkLimit rl key config (s, l) =
           ((False, None), (s', l @ [(IsBlockedCall key, None)]))"
  using assms by (simp add: checkLimit_def recording_def)

theorem blocked_key_denied_untouched_witness:
  "checkLimit (NewRateLimiter (recording InMemoryStorage_ops) test_config) ''ip:192.168.1.1'' test_config
     ((\<lparr>counters = [''ip:192.168.1.1'' \<mapsto> \<lparr>count = 4, expireAt = 1000000000\<rparr>],
        blocked = [''ip:192.168.1.1'' \<mapsto> 60000004000]\<rparr>,
       \<lparr>readings = (\<lambda>n. 1000 * int n), taken = 10000\<rparr>), []) =
   ((False, None),
    ((\<lparr>counters = [''ip:192.168.1.1'' \<mapsto> \<lparr>count = 4, expireAt = 1000000000\<rparr>],
       blocked = [''ip:192.168.1.1'' \<mapsto> 60000004000]\<rparr>,
      \<lparr>readings = (\<lambda>n. 1000 * int n), taken = 10001\<rparr>),
     [(IsBlockedCall ''ip:192.168.1.1'', None)]))"
proof -
  have h1: "storage (NewRateLimiter (recording InMemoryStorage_ops) test_config) =
              recording InMemoryStorage_ops"
    by (simp add: NewRateLimiter_def)
  have h2: "IsBlocked InMemoryStorage_ops ''ip:192.168.1.1''
      (\<lparr>counters = [''ip:192.168.1.1'' \<mapsto> \<lparr>count = 4, expireAt = 1000000000\<rparr>],
        blocked = [''ip:192.168.1.1'' \<mapsto> 60000004000]\<rparr>,
       \<lparr>readings = (\<lambda>n. 1000 * int n), taken = 10000\<rparr>) =
     ((True, None),
      (\<lparr>counters = [''ip:192.168.1.1'' \<mapsto> \<lparr>count = 4, expireAt = 1000000000\<rparr>],
        blocked = [''ip:192.168.1.1'' \<mapsto> 60000004000]\<rparr>,
       \<lparr>readings = (\<lambda>n. 1000 * int n), taken = 10001\<rparr>))"
    by (simp add: mem_defs)
  show ?thesis
    using blocked_key_denied_untouched [OF h1 h2, of test_config "[]"] by simp
qed

section \<open>The comparison with the limit\<close>

text \<open>
  Claim C3.  For every store, key and configuration: when \<open>IsBlocked\<close> answers false
  and \<open>Increment\<close> answers the count \<open>n\<close>, both with a nil error, \<open>checkLimit\<close>
  returns allowed exactly when \<open>n \<le> Requests\<close> (so \<open>n = Requests\<close> is allowed), and
  then it calls nothing else.  Exactly when \<open>n > Requests\<close> it calls
  \<open>Block key BlockTime\<close>, once, after the increment, and returns not allowed, with the
  error of \<open>Block\<close> wrapped if there is one.
\<close>

theorem allowed_iff_count_within_limit:
  assumes "storage rl = recording st"
      and "IsBlocked st key s = ((False, None), s1)"
      and "Increment st key (Window config) s1 = ((n, None), s2)"
  shows "checkLimit rl key config (s, l) =
     (if n \<le>s Requests config
      then ((True, None),
            (s2, l @ [(IsBlockedCall key, None), (IncrementCall key (Window config), None)]))
      else (case Block st key (BlockTime config) s2 of
              (e, s3) \<Rightarrow>
                ((False, map_option (Errorf msg_Block) e),
                 (s3, l @ [(IsBlockedCall key, None), (IncrementCall key (Window config), None),
                           (BlockCall key (BlockTime config), e)]))))"
  using assms
  by (auto simp add: checkLimit_def recording_def split: prod.splits option.splits)

theorem allowed_iff_count_within_limit_witness:
  "checkLimit (NewRateLimiter (recording (stub (False, None) (3, None) None)) test_config)
       ''ip:192.168.1.1'' test_config ((), []) =
     ((True, None),
      ((), [(IsBlockedCall ''ip:192.168.1.1'', None),
            (IncrementCall ''ip:192.168.1.1'' 1000000000, None)])) \<and>
   checkLimit (NewRateLimiter (recording (stub (False, None) (4, None) None)) test_config)
       ''ip:192.168.1.1'' test_config ((), []) =
     ((False, None),
      ((), [(IsBlockedCall ''ip:192.168.1.1'', None),
            (IncrementCall ''ip:192.168.1.1'' 1000000000, None),
            (BlockCall ''ip:192.168.1.1'' 60000000000, None)]))"
proof -
  have h1: "storage (NewRateLimiter (recording (stub (False, None) (k, None) None)) test_config) =
              recording (stub (False, None) (k, None) None)" for k
    by (simp add: NewRateLimiter_def)
  have h2: "IsBlocked (stub (False, None) (k, None) None) ''ip:192.168.1.1'' () =
              ((False, None), ())" for k
    by (simp add: stub_def)
  have h3: "Increment (stub (False, None) (k, None) None) ''ip:192.168.1.1'' (Window test_config) () =
              ((k, None), ())" for k
    by (simp add: stub_def)
  show ?thesis
    using allowed_iff_count_within_limit [OF h1 h2 h3, of 3 "[]"]
          allowed_iff_count_within_limit [OF h1 h2 h3, of 4 "[]"]
    by (simp add: test_config_def stub_def)
qed

section \<open>Tokens\<close>

text \<open>
  Claim C4.  For every token with no registered configuration, \<open>CheckToken\<close> returns
  allowed with a nil error and returns the store's state as it received it.  The state
  is arbitrary: for a recording store it contains the log of calls, which is therefore
  unchanged, so no method of the store is called.
\<close>

theorem unknown_token_allowed_without_store:
  assumes "tokens rl token = None"
  shows "CheckToken rl token s = ((True, None), s)"
  using assms by (simp add: CheckToken_def)

theorem unknown_token_allowed_without_store_witness:
  "CheckToken (NewRateLimiter (recording down) test_config) ''invalid_token'' ((), []) =
     ((True, None), ((), []))"
proof -
  have h: "tokens (NewRateLimiter (recording down) test_config) ''invalid_token'' = None"
    by (simp add: NewRateLimiter_def)
  show ?thesis
    using unknown_token_allowed_without_store [OF h] by simp
qed

text \<open>
  Claim C7.  For every token with a registered configuration, \<open>CheckToken\<close> is
  \<open>checkLimit\<close> on the key \<open>token:\<close> followed by the token, with the token's
  configuration, whatever the default configuration is (it is replaced by arbitrary
  values on both sides).  And on a fresh in-memory store, with any default
  configuration (a limit of 1 included) and a token limit of 3, three consecutive
  \<open>CheckToken\<close> calls for the token are all allowed.
\<close>

theorem registered_token_uses_own_config:
  assumes "tokens rl token = Some config"
  shows "CheckToken (rl\<lparr>ipConfig := ipc\<rparr>) token s =
           checkLimit (rl\<lparr>ipConfig := ipc'\<rparr>) (''token:'' @ token) config s
         \<and> (Requests config = 3 \<longrightarrow>
              fst (calls 3 (CheckToken (AddTokenConfig token config
                               (NewRateLimiter InMemoryStorage_ops ipc)) token)
                     (NewInMemoryStorage, c)) =
              [(True, None), (True, None), (True, None)])"
  using assms three_token_calls [of config token ipc c]
  by (simp add: CheckToken_def checkLimit_def split: prod.splits option.splits)

theorem registered_token_uses_own_config_witness:
  "CheckToken (AddTokenConfig ''abc123'' \<lparr>Requests = 3, Window = 1000000000, BlockTime = 60000000000\<rparr>
       (NewRateLimiter InMemoryStorage_ops \<lparr>Requests = 1, Window = 1000000000, BlockTime = 60000000000\<rparr>))
     ''abc123'' (NewInMemoryStorage, test_clock) =
   ((True, None),
    (\<lparr>counters = [''token:abc123'' \<mapsto> \<lparr>count = 1, expireAt = 1000000000\<rparr>], blocked = Map.empty\<rparr>,
     \<lparr>readings = (\<lambda>n. 1000 * int n), taken = 1\<rparr>))
   \<and> fst (calls 3 (CheckToken (AddTokenConfig ''abc123''
                  \<lparr>Requests = 3, Window = 1000000000, BlockTime = 60000000000\<rparr>
                  (NewRateLimiter InMemoryStorage_ops
                     \<lparr>Requests = 1, Window = 1000000000, BlockTime = 60000000000\<rparr>)) ''abc123'')
            (NewInMemoryStorage, test_clock)) =
       [(True, None), (True, None), (True, None)]"
proof -
  let ?tc = "\<lparr>Requests = 3, Window = 1000000000, BlockTime = 60000000000\<rparr>"
  let ?ic = "\<lparr>Requests = 1, Window = 1000000000, BlockTime = 60000000000\<rparr>"
  let ?rl = "AddTokenConfig ''abc123'' ?tc (NewRateLimiter InMemoryStorage_ops ?ic)"
  have h: "tokens ?rl ''abc123'' = Some ?tc"
    by (simp add: AddTokenConfig_def)
  have same: "?rl\<lparr>ipConfig := ?ic\<rparr> = ?rl"
    by (simp add: AddTokenConfig_def NewRateLimiter_def)
  have lim: "checkLimit ?rl ''token:abc123'' ?tc (NewInMemoryStorage, test_clock) =
     ((True, None),
      (\<lparr>counters = [''token:abc123'' \<mapsto> \<lparr>count = 1, expireAt = 1000000000\<rparr>], blocked = Map.empty\<rparr>,
       \<lparr>readings = (\<lambda>n. 1000 * int n), taken = 1\<rparr>))"
    by (simp add: AddTokenConfig_def NewRateLimiter_def checkLimit_def mem_defs test_clock_def
        Add_def word_sless_alt)
  show ?thesis
    using registered_token_uses_own_config [OF h, of ?ic "(NewInMemoryStorage, test_clock)" ?ic test_clock]
          lim
    by (simp add: same)
qed

text \<open>
  Claim C10.  The empty string is a token like any other.  After \<open>AddTokenConfig\<close>
  registers a configuration for it, \<open>CheckToken\<close> of the empty string is
  \<open>checkLimit\<close> on the key \<open>token:\<close> with that configuration.  On any store
  under the recorder this means: if the store reports \<open>token:\<close> blocked, the result
  is denied and the only call logged is \<open>IsBlocked\<close> on \<open>token:\<close>; otherwise
  \<open>Increment\<close> is called on \<open>token:\<close> with the configuration's window, the
  result is allowed exactly when the count is within the configuration's limit, and
  beyond the limit \<open>Block\<close> is called on \<open>token:\<close> with the configuration's
  block time.  With no configuration registered for it, \<open>CheckToken\<close> of the empty
  string returns allowed with a nil error and the store's state as received, log of
  calls included.
\<close>

theorem empty_token_not_special:
  "CheckToken (AddTokenConfig '''' config rl) '''' s = checkLimit rl ''token:'' config s \<and>
   (tokens rl '''' = None \<longrightarrow> CheckToken rl '''' s = ((True, None), s)) \<and>
   (storage rr = recording st \<longrightarrow>
      (IsBlocked st ''token:'' s0 = ((True, None), s1) \<longrightarrow>
         CheckToken (AddTokenConfig '''' config rr) '''' (s0, l) =
           ((False, None), (s1, l @ [(IsBlockedCall ''token:'', None)]))) \<and>
      (IsBlocked st ''token:'' s0 = ((False, None), s1) \<longrightarrow>
       Increment st ''token:'' (Window config) s1 = ((n, None), s2) \<longrightarrow>
         CheckToken (AddTokenConfig '''' config rr) '''' (s0, l) =
           (if n \<le>s Requests config
            then ((True, None),
                  (s2, l @ [(IsBlockedCall ''token:'', None),
                            (IncrementCall ''token:'' (Window config), None)]))
            else (case Block st ''token:'' (BlockTime config) s2 of
                    (e, s3) \<Rightarrow>
                      ((False, map_option (Errorf msg_Block) e),
                       (s3, l @ [(IsBlockedCall ''token:'', None),
                                 (IncrementCall ''token:'' (Window config), None),
                                 (BlockCall ''token:'' (BlockTime config), e)]))))))"
  by (auto simp add: CheckToken_def AddTokenConfig_def checkLimit_def recording_def
      split: prod.splits option.splits)

theorem empty_token_not_special_witness:
  "CheckToken (NewRateLimiter (recording InMemoryStorage_ops) test_config) ''''
       ((NewInMemoryStorage, test_clock), []) =
     ((True, None), ((NewInMemoryStorage, test_clock), [])) \<and>
   CheckToken (AddTokenConfig '''' test_config (NewRateLimiter (recording InMemoryStorage_ops) test_config)) ''''
       ((NewInMemoryStorage, test_clock), []) =
     ((True, None),
      ((\<lparr>counters = [''token:'' \<mapsto> \<lparr>count = 1, expireAt = 1000000000\<rparr>], blocked = Map.empty\<rparr>,
        \<lparr>readings = (\<lambda>n. 1000 * int n), taken = 1\<rparr>),
       [(IsBlockedCall ''token:'', None), (IncrementCall ''token:'' 1000000000, None)])) \<and>
   CheckToken (AddTokenConfig '''' test_config (NewRateLimiter (recording InMemoryStorage_ops) test_config)) ''''
       ((\<lparr>counters = [''token:'' \<mapsto> \<lparr>count = 3, expireAt = 1000000000\<rparr>], blocked = Map.empty\<rparr>,
         \<lparr>readings = (\<lambda>n. 1000 * int n), taken = 3\<rparr>), []) =
     ((False, None),
      ((\<lparr>counters = [''token:'' \<mapsto> \<lparr>count = 4, expireAt = 1000000000\<rparr>],
         blocked = [''token:'' \<mapsto> 60000004000]\<rparr>,
        \<lparr>readings = (\<lambda>n. 1000 * int n), taken = 5\<rparr>),
       [(IsBlockedCall ''token:'', None), (IncrementCall ''token:'' 1000000000, None),
        (BlockCall ''token:'' 60000000000, None)])) \<and>
   CheckToken (AddTokenConfig '''' test_config (NewRateLimiter (recording InMemoryStorage_ops) test_config)) ''''
       ((\<lparr>counters = [''token:'' \<mapsto> \<lparr>count = 4, expireAt = 1000000000\<rparr>],
          blocked = [''token:'' \<mapsto> 60000004000]\<rparr>,
         \<lparr>readings = (\<lambda>n. 1000 * int n), taken = 5\<rparr>), []) =
     ((False, None),
      ((\<lparr>counters = [''token:'' \<mapsto> \<lparr>count = 4, expireAt = 1000000000\<rparr>],
         blocked = [''token:'' \<mapsto> 60000004000]\<rparr>,
        \<lparr>readings = (\<lambda>n. 1000 * int n), taken = 6\<rparr>),
       [(IsBlockedCall ''token:'', None)]))"
proof -
  let ?rr = "NewRateLimiter (recording InMemoryStorage_ops) test_config"
  let ?clk = "\<lambda>k. \<lparr>readings = (\<lambda>n. 1000 * int n), taken = k\<rparr>"
  let ?m1 = "\<lparr>counters = [''token:'' \<mapsto> \<lparr>count = 1, expireAt = 1000000000\<rparr>], blocked = Map.empty\<rparr>"
  let ?m3 = "\<lparr>counters = [''token:'' \<mapsto> \<lparr>count = 3, expireAt = 1000000000\<rparr>], blocked = Map.empty\<rparr>"
  let ?m4 = "\<lparr>counters = [''token:'' \<mapsto> \<lparr>count = 4, expireAt = 1000000000\<rparr>], blocked = Map.empty\<rparr>"
  let ?m4b = "\<lparr>counters = [''token:'' \<mapsto> \<lparr>count = 4, expireAt = 1000000000\<rparr>],
               blocked = [''token:'' \<mapsto> 60000004000]\<rparr>"
  have st: "storage ?rr = recording InMemoryStorage_ops"
    by (simp add: NewRateLimiter_def)
  have un: "tokens ?rr '''' = None"
    by (simp add: NewRateLimiter_def)
  have a1: "IsBlocked InMemoryStorage_ops ''token:'' (NewInMemoryStorage, test_clock) =
              ((False, None), (NewInMemoryStorage, test_clock))"
    by (simp add: mem_defs)
  have a2: "Increment InMemoryStorage_ops ''token:'' (Window test_config) (NewInMemoryStorage, test_clock) =
              ((1, None), (?m1, ?clk 1))"
    by (simp add: mem_defs test_clock_def test_config_def Add_def)
  have b1: "IsBlocked InMemoryStorage_ops ''token:'' (?m3, ?clk 3) = ((False, None), (?m3, ?clk 3))"
    by (simp add: mem_defs)
  have b2: "Increment InMemoryStorage_ops ''token:'' (Window test_config) (?m3, ?clk 3) =
              ((4, None), (?m4, ?clk 4))"
    by (simp add: mem_defs)
  have b3: "Block InMemoryStorage_ops ''token:'' (BlockTime test_config) (?m4, ?clk 4) =
              (None, (?m4b, ?clk 5))"
    by (simp add: mem_defs test_config_def Add_def)
  have c1: "IsBlocked InMemoryStorage_ops ''token:'' (?m4b, ?clk 5) = ((True, None), (?m4b, ?clk 6))"
    by (simp add: mem_defs)
  note unreg = empty_token_not_special [THEN conjunct2, THEN conjunct1, rule_format, OF un]
  note reg = empty_token_not_special [THEN conjunct2, THEN conjunct2, rule_format, OF st]
  note reg_blocked = reg [THEN conjunct1, rule_format]
  note reg_counted = reg [THEN conjunct2, rule_format]
  have A: "CheckToken ?rr '''' ((NewInMemoryStorage, test_clock), []) =
             ((True, None), ((NewInMemoryStorage, test_clock), []))"
    by (rule unreg)
  have B: "CheckToken (AddTokenConfig '''' test_config ?rr) '''' ((NewInMemoryStorage, test_clock), []) =
     ((True, None), ((?m1, ?clk 1),
       [(IsBlockedCall ''token:'', None), (IncrementCall ''token:'' 1000000000, None)]))"
    by (simp only: reg_counted [OF a1 a2]) (simp add: test_config_def word_sle_eq)
  have C: "CheckToken (AddTokenConfig '''' test_config ?rr) '''' ((?m3, ?clk 3), []) =
     ((False, None), ((?m4b, ?clk 5),
       [(IsBlockedCall ''token:'', None), (IncrementCall ''token:'' 1000000000, None),
        (BlockCall ''token:'' 60000000000, None)]))"
    by (simp only: reg_counted [OF b1 b2] b3) (simp add: test_config_def word_sle_eq)
  have D: "CheckToken (AddTokenConfig '''' test_config ?rr) '''' ((?m4b, ?clk 5), []) =
     ((False, None), ((?m4b, ?clk 6), [(IsBlockedCall ''token:'', None)]))"
    by (simp only: reg_blocked [OF c1]) simp
  show ?thesis
    using A B C D by (simp add: test_clock_def)
qed

section \<open>Store failures\<close>

text \<open>
  Claim C8.  Run \<open>checkLimit\<close> on any store wrapped in the recorder.  The calls it
  adds to the log are an initial part of: \<open>IsBlocked key\<close>, \<open>Increment key Window\<close>,
  \<open>Block key BlockTime\<close>; so each method is called at most once and nothing is
  retried.  The error \<open>checkLimit\<close> returns is non-nil if and only if one of these
  calls returned an error; and when a call returned the error \<open>e\<close>, the result is not
  allowed and carries an error that wraps \<open>e\<close>, which no result without a store
  failure carries.
\<close>

theorem error_iff_store_call_failed:
  assumes "storage rl = recording st"
      and "checkLimit rl key config (s, l) = ((allowed, err), (s', l'))"
  shows "\<exists>new. l' = l @ new
     \<and> prefix (map fst new)
          [IsBlockedCall key, IncrementCall key (Window config), BlockCall key (BlockTime config)]
     \<and> (err \<noteq> None \<longleftrightarrow> (\<exists>c \<in> set new. snd c \<noteq> None))
     \<and> (\<forall>c e. (c, Some e) \<in> set new \<longrightarrow> \<not> allowed \<and> (\<exists>msg. err = Some (Errorf msg e)))"
  using assms
  by (auto simp add: checkLimit_def recording_def split: prod.splits option.splits if_splits)

theorem error_iff_store_call_failed_witness:
  "checkLimit (NewRateLimiter (recording (stub (False, None) (0, Some (Failure ''timeout'')) None)) test_config)
       ''ip:192.168.1.1'' test_config ((), []) =
     ((False, Some (Errorf msg_Increment (Failure ''timeout''))),
      ((), [(IsBlockedCall ''ip:192.168.1.1'', None),
            (IncrementCall ''ip:192.168.1.1'' (Window test_config), Some (Failure ''timeout''))]))
   \<and> (\<exists>new. [(IsBlockedCall ''ip:192.168.1.1'', None),
              (IncrementCall ''ip:192.168.1.1'' (Window test_config), Some (Failure ''timeout''))] = [] @ new
     \<and> prefix (map fst new)
          [IsBlockedCall ''ip:192.168.1.1'', IncrementCall ''ip:192.168.1.1'' (Window test_config),
           BlockCall ''ip:192.168.1.1'' (BlockTime test_config)]
     \<and> (Some (Errorf msg_Increment (Failure ''timeout'')) \<noteq> None \<longleftrightarrow> (\<exists>c \<in> set new. snd c \<noteq> None))
     \<and> (\<forall>c e. (c, Some e) \<in> set new \<longrightarrow>
            \<not> False \<and> (\<exists>msg. Some (Errorf msg_Increment (Failure ''timeout'')) = Some (Errorf msg e))))"
proof -
  let ?st = "stub (False, None) (0, Some (Failure ''timeout'')) None"
  have h1: "storage (NewRateLimiter (recording ?st) test_config) = recording ?st"
    by (simp add: NewRateLimiter_def)
  have h2: "checkLimit (NewRateLimiter (recording ?st) test_config)
       ''ip:192.168.1.1'' test_config ((), []) =
     ((False, Some (Errorf msg_Increment (Failure ''timeout''))),
      ((), [(IsBlockedCall ''ip:192.168.1.1'', None),
            (IncrementCall ''ip:192.168.1.1'' (Window test_config), Some (Failure ''timeout''))]))"
    by (simp add: checkLimit_def NewRateLimiter_def recording_def stub_def)
  show ?thesis
    using error_iff_store_call_failed [OF h1 h2] h2 by blast
qed

text \<open>
  Claim C9.  Whenever \<open>checkLimit\<close>, \<open>CheckIP\<close> or \<open>CheckToken\<close> returns a non-nil
  error, the boolean beside it is false; this for every store, also one that answers
  true together with an error.
\<close>

theorem error_never_paired_with_allowed:
  "(snd (fst (checkLimit rl key config s)) \<noteq> None \<longrightarrow> \<not> fst (fst (checkLimit rl key config s))) \<and>
   (snd (fst (CheckIP rl ip s)) \<noteq> None \<longrightarrow> \<not> fst (fst (CheckIP rl ip s))) \<and>
   (snd (fst (CheckToken rl token s)) \<noteq> None \<longrightarrow> \<not> fst (fst (CheckToken rl token s)))"
  by (simp add: CheckIP_def CheckToken_def checkLimit_not_allowed_on_error split: option.splits)

theorem error_never_paired_with_allowed_witness:
  "snd (fst (checkLimit (AddTokenConfig ''abc123'' token_config (NewRateLimiter down test_config))
               ''ip:192.168.1.1'' test_config ())) \<noteq> None \<and>
   \<not> fst (fst (checkLimit (AddTokenConfig ''abc123'' token_config (NewRateLimiter down test_config))
               ''ip:192.168.1.1'' test_config ())) \<and>
   snd (fst (CheckIP (AddTokenConfig ''abc123'' token_config (NewRateLimiter down test_config))
               ''192.168.1.1'' ())) \<noteq> None \<and>
   \<not> fst (fst (CheckIP (AddTokenConfig ''abc123'' token_config (NewRateLimiter down test_config))
               ''192.168.1.1'' ())) \<and>
   snd (fst (CheckToken (AddTokenConfig ''abc123'' token_config (NewRateLimiter down test_config))
               ''abc123'' ())) \<noteq> None \<and>
   \<not> fst (fst (CheckToken (AddTokenConfig ''abc123'' token_config (NewRateLimiter down test_config))
               ''abc123'' ()))"
proof -
  let ?rl = "AddTokenConfig ''abc123'' token_config (NewRateLimiter down test_config)"
  have h1: "snd (fst (checkLimit ?rl ''ip:192.168.1.1'' test_config ())) \<noteq> None"
    by (simp add: checkLimit_def AddTokenConfig_def NewRateLimiter_def down_def stub_def)
  have h2: "snd (fst (CheckIP ?rl ''192.168.1.1'' ())) \<noteq> None"
    by (simp add: CheckIP_def checkLimit_def AddTokenConfig_def NewRateLimiter_def down_def stub_def)
  have h3: "snd (fst (CheckToken ?rl ''abc123'' ())) \<noteq> None"
    by (simp add: CheckToken_def checkLimit_def AddTokenConfig_def NewRateLimiter_def down_def stub_def)
  show ?thesis
    using h1 h2 h3
      error_never_paired_with_allowed [of ?rl "''ip:192.168.1.1''" test_config "()" "''192.168.1.1''" "''abc123''"]
    by blast
qed

section \<open>Registration\<close>

text \<open>
  Claim C6 as the code has it.  \<open>NewRateLimiter\<close> and \<open>AddTokenConfig\<close> return no
  error and check nothing: every configuration, also one with a non-positive request
  limit or window, is stored unchanged as the default configuration or under its token,
  and \<open>CheckIP\<close> and \<open>CheckToken\<close> then run \<open>checkLimit\<close> with it.
\<close>

theorem registration_stores_every_config:
  "ipConfig (NewRateLimiter st config) = config \<and>
   tokens (AddTokenConfig token config rl) token = Some config \<and>
   CheckIP (NewRateLimiter st config) ip s =
     checkLimit (NewRateLimiter st config) (''ip:'' @ ip) config s \<and>
   CheckToken (AddTokenConfig token config rl) token s =
     checkLimit rl (''token:'' @ token) config s"
  by (simp add: NewRateLimiter_def AddTokenConfig_def CheckIP_def CheckToken_def checkLimit_def
      split: prod.splits option.splits)

text \<open>
  The claim as stated fails: a default configuration with limit 0 and window 0 and a
  token configuration with limit -1 and window -1 are both registered, and the first
  request of each scope on a fresh store is then denied at check time.
\<close>

theorem invalid_config_is_registered:
  "ipConfig (NewRateLimiter InMemoryStorage_ops \<lparr>Requests = 0, Window = 0, BlockTime = 0\<rparr>) =
     \<lparr>Requests = 0, Window = 0, BlockTime = 0\<rparr> \<and>
   tokens (AddTokenConfig ''abc123'' \<lparr>Requests = - 1, Window = - 1, BlockTime = 0\<rparr>
            (NewRateLimiter InMemoryStorage_ops \<lparr>Requests = 0, Window = 0, BlockTime = 0\<rparr>)) ''abc123'' =
     Some \<lparr>Requests = - 1, Window = - 1, BlockTime = 0\<rparr> \<and>
   fst (CheckIP (NewRateLimiter InMemoryStorage_ops \<lparr>Requests = 0, Window = 0, BlockTime = 0\<rparr>)
          ''192.168.1.1'' (NewInMemoryStorage, test_clock)) = (False, None) \<and>
   fst (CheckToken (AddTokenConfig ''abc123'' \<lparr>Requests = - 1, Window = - 1, BlockTime = 0\<rparr>
            (NewRateLimiter InMemoryStorage_ops \<lparr>Requests = 0, Window = 0, BlockTime = 0\<rparr>))
          ''abc123'' (NewInMemoryStorage, test_clock)) = (False, None)"
  by (simp add: NewRateLimiter_def AddTokenConfig_def CheckIP_def CheckToken_def checkLimit_def
      mem_defs test_clock_def word_sless_alt)

section \<open>The expiry of a counter\<close>

text \<open>
  Claim C5 at a failing input.  Two calls of \<open>RedisStorage.Increment\<close> for one key with
  a window of one second, the second call half a second after the first: the counts are
  1 and 2, the first call sets the expiry to 1 s, and the second call, inside the
  window, moves it to 1.5 s.  \<open>InMemoryStorage.Increment\<close> on the same input returns
  the same counts and leaves the expiry at 1 s.
\<close>

theorem RedisStorage_Increment_moves_expiry:
  "fst (calls 1 (RedisStorage_Increment ''ip:192.168.1.1'' 1000000000) (empty_redis, half_second_later 2)) =
     [(1, None)] \<and>
   map_option expiry
     (db (fst (snd (calls 1 (RedisStorage_Increment ''ip:192.168.1.1'' 1000000000)
                      (empty_redis, half_second_later 2)))) ''ip:192.168.1.1'') =
     Some (Some 1000000000) \<and>
   fst (calls 2 (RedisStorage_Increment ''ip:192.168.1.1'' 1000000000) (empty_redis, half_second_later 2)) =
     [(1, None), (2, None)] \<and>
   map_option expiry
     (db (fst (snd (calls 2 (RedisStorage_Increment ''ip:192.168.1.1'' 1000000000)
                      (empty_redis, half_second_later 2)))) ''ip:192.168.1.1'') =
     Some (Some 1500000000) \<and>
   fst (calls 2 (InMemoryStorage_Increment ''ip:192.168.1.1'' 1000000000)
          (NewInMemoryStorage, half_second_later 1)) =
     [(1, None), (2, None)] \<and>
   map_option expireAt
     (counters (fst (snd (calls 2 (InMemoryStorage_Increment ''ip:192.168.1.1'' 1000000000)
                            (NewInMemoryStorage, half_second_later 1)))) ''ip:192.168.1.1'') =
     Some 1000000000"
  by (simp add: calls_numeral RedisStorage_Increment_def INCR_def EXPIRE_def live_def formatSec_def
      empty_redis_def half_second_later_def mem_defs Add_def signed_divide_int_def)

end
